theory Spec2Isabelle
  imports Complex_Main
begin

section \<open>Python values used by the two monitors\<close>

text \<open>
  A Python float is modelled by the number it denotes: a finite float carries its exact
  rational value, and the two infinities and nan are separate values. Rounding to 53
  bits is not modelled, so the arithmetic below is the exact one; it agrees with Python
  wherever the operands and the result are representable (every integer of magnitude up
  to \<open>2 ^ 53\<close>, and its quotient by 1024 or 1000 when that is representable).
\<close>

datatype pyfloat = Fin rat | PInf | NInf | NaN

text \<open>The exceptions the two programs can meet.\<close>

datatype exn =
    FileNotFoundError | PermissionError | OSError | ValueError | AttributeError
  | AccessDenied

text \<open>Comparison of floats: every comparison with nan is false.\<close>

fun fgt :: "pyfloat \<Rightarrow> pyfloat \<Rightarrow> bool" where
  "fgt NaN b = False"
| "fgt a NaN = False"
| "fgt (Fin a) (Fin b) = (b < a)"
| "fgt (Fin a) NInf = True"
| "fgt (Fin a) PInf = False"
| "fgt PInf PInf = False"
| "fgt PInf b = True"
| "fgt NInf b = False"

definition flt :: "pyfloat \<Rightarrow> pyfloat \<Rightarrow> bool" where
  "flt a b = fgt b a"

definition fge :: "pyfloat \<Rightarrow> pyfloat \<Rightarrow> bool" where
  "fge a b = (if a = NaN then False else if a = b then True else fgt a b)"

text \<open>\<open>float(n)\<close> of a Python integer, and \<open>x / c\<close> for a positive finite constant
  \<open>c\<close> (the programs divide by 1024.0 and by 1000.0 only).\<close>

definition float_of_int :: "int \<Rightarrow> pyfloat" where
  "float_of_int n = Fin (of_int n)"

fun fdiv :: "pyfloat \<Rightarrow> rat \<Rightarrow> pyfloat" where
  "fdiv (Fin r) c = Fin (r / c)"
| "fdiv PInf c = PInf"
| "fdiv NInf c = NInf"
| "fdiv NaN c = NaN"

subsection \<open>\<open>str.strip\<close> and \<open>float(str)\<close>\<close>

definition is_space :: "char \<Rightarrow> bool" where
  "is_space c = (c \<in> set [CHR '' '', CHR 0x09, CHR 0x0A, CHR 0x0B, CHR 0x0C, CHR 0x0D,
                           CHR 0x1C, CHR 0x1D, CHR 0x1E, CHR 0x1F])"

definition strip :: "string \<Rightarrow> string" where
  "strip s = rev (dropWhile is_space (rev (dropWhile is_space s)))"

definition is_digit :: "char \<Rightarrow> bool" where
  "is_digit c = (c \<in> set ''0123456789'')"

definition digit_val :: "char \<Rightarrow> nat" where
  "digit_val c =
     (case map_of (zip ''0123456789'' [0, 1, 2, 3, 4, 5, 6, 7, 8, 9]) c of
        None \<Rightarrow> 0 | Some d \<Rightarrow> d)"

definition digits_value :: "string \<Rightarrow> nat" where
  "digits_value ds = foldl (\<lambda>a c. 10 * a + digit_val c) 0 ds"

definition lower :: "char \<Rightarrow> char" where
  "lower c =
     (case map_of (zip ''ABCDEFGHIJKLMNOPQRSTUVWXYZ'' ''abcdefghijklmnopqrstuvwxyz'') c of
        None \<Rightarrow> c | Some d \<Rightarrow> d)"

text \<open>
  The grammar of \<open>float(str)\<close>:
  \<^verbatim>\<open>
  digitpart   ::= digit (["_"] digit)*
  number      ::= [digitpart] "." digitpart | digitpart ["."]
  exponent    ::= ("e" | "E") [sign] digitpart
  floatvalue  ::= [sign] (number [exponent] | "inf" | "infinity" | "nan")
  \<close>
  with the three words in any letter case and white space allowed around the value.
  \<open>digits_tail\<close> reads the rest of a digitpart after one of its digits; both return the
  digits read (underscores dropped) and the text left.
\<close>

fun digits_tail :: "string \<Rightarrow> string \<times> string" where
  "digits_tail [] = ([], [])"
| "digits_tail (c # cs) =
     (if is_digit c then (case digits_tail cs of (ds, r) \<Rightarrow> (c # ds, r))
      else if c = CHR ''_'' then
        (case cs of
           [] \<Rightarrow> ([], c # cs)
         | d # _ \<Rightarrow> if is_digit d then digits_tail cs else ([], c # cs))
      else ([], c # cs))"

definition digitpart :: "string \<Rightarrow> string \<times> string" where
  "digitpart u =
     (case u of [] \<Rightarrow> ([], []) | c # _ \<Rightarrow> if is_digit c then digits_tail u else ([], u))"

definition split_sign :: "string \<Rightarrow> bool \<times> string" where
  "split_sign t =
     (case t of
        [] \<Rightarrow> (False, [])
      | c # cs \<Rightarrow> if c = CHR ''-'' then (True, cs)
                  else if c = CHR ''+'' then (False, cs) else (False, t))"

definition exponent :: "string \<Rightarrow> int option" where
  "exponent r =
     (case r of
        [] \<Rightarrow> Some 0
      | c # cs \<Rightarrow>
          if c = CHR ''e'' \<or> c = CHR ''E'' then
            (case split_sign cs of (neg, ds) \<Rightarrow>
               (case digitpart ds of (es, rest) \<Rightarrow>
                  if es = [] then None
                  else if rest = [] then
                    Some (if neg then - int (digits_value es) else int (digits_value es))
                  else None))
          else None)"

definition scale :: "nat \<Rightarrow> int \<Rightarrow> rat" where
  "scale m e = (if 0 \<le> e then of_nat m * 10 ^ nat e else of_nat m / 10 ^ nat (- e))"

definition floatnumber :: "string \<Rightarrow> rat option" where
  "floatnumber u =
     (case digitpart u of (ip, r1) \<Rightarrow>
        (case (case r1 of
                 [] \<Rightarrow> ([], r1)
               | c # cs \<Rightarrow> if c = CHR ''.'' then digitpart cs else ([], r1)) of (fp, r3) \<Rightarrow>
           if ip = [] \<and> fp = [] then None
           else (case exponent r3 of
                   None \<Rightarrow> None
                 | Some e \<Rightarrow> Some (scale (digits_value (ip @ fp)) (e - int (length fp))))))"

definition py_float :: "string \<Rightarrow> exn + pyfloat" where
  "py_float s =
     (case split_sign (strip s) of (neg, u) \<Rightarrow>
        if map lower u = ''inf'' \<or> map lower u = ''infinity''
        then Inr (if neg then NInf else PInf)
        else if map lower u = ''nan'' then Inr NaN
        else (case floatnumber u of
                None \<Rightarrow> Inl ValueError
              | Some q \<Rightarrow> Inr (Fin (if neg then - q else q))))"

section \<open>Reading the temperature\<close>

text \<open>
  \<open>psutil.sensors_temperatures()\<close> returns a dictionary from sensor names to lists of
  readings, or raises. Its enumeration order matters (\<open>next(iter(temps))\<close>), so it is an
  association list. The thermal-zone file is what \<open>open\<close> and \<open>read\<close> give: its text,
  or the exception raised (\<open>FileNotFoundError\<close> when the file is absent).
\<close>

record shwtemp =
  label :: string
  current :: pyfloat

type_synonym registry = "(string \<times> shwtemp list) list"

text \<open>
  Lines 45 to 52 of monitor.py and 155 to 160 of monitor\_graph.py, the same in both:
  the entry of \<open>'cpu_thermal'\<close> when it has a reading, else the entry of the first key
  when it has one. \<open>None\<close> is falling through to the file.
\<close>

definition select_sensor :: "registry \<Rightarrow> pyfloat option" where
  "select_sensor temps =
     (case temps of
        [] \<Rightarrow> None
      | (first_key, first_entry) # _ \<Rightarrow>
          (case map_of temps ''cpu_thermal'' of
             Some (r # _) \<Rightarrow> Some (current r)
           | _ \<Rightarrow> (case first_entry of [] \<Rightarrow> None | r # _ \<Rightarrow> Some (current r))))"

text \<open>Lines 54 to 57 and 165 to 166: read the file, strip, convert, divide by 1000.\<close>

definition read_file_temp :: "exn + string \<Rightarrow> exn + pyfloat" where
  "read_file_temp file =
     (case file of
        Inl e \<Rightarrow> Inl e
      | Inr raw \<Rightarrow> (case py_float (strip raw) of
                     Inl e \<Rightarrow> Inl e
                   | Inr x \<Rightarrow> Inr (fdiv x 1000)))"

text \<open>monitor.py, \<open>read_temperature\<close>: the query is guarded by \<open>except Exception\<close>,
  the file by \<open>except FileNotFoundError\<close> only.\<close>

definition read_temperature :: "exn + registry \<Rightarrow> exn + string \<Rightarrow> exn + pyfloat" where
  "read_temperature sensors file =
     (let temps = (case sensors of Inl e \<Rightarrow> [] | Inr t \<Rightarrow> t) in
      case select_sensor temps of
        Some v \<Rightarrow> Inr v
      | None \<Rightarrow>
          (case read_file_temp file of
             Inl e \<Rightarrow> if e = FileNotFoundError then Inr NaN else Inl e
           | Inr v \<Rightarrow> Inr v))"

text \<open>monitor\_graph.py, \<open>GraphMonitor._read_temp\<close>: both blocks are guarded by
  \<open>except Exception\<close>.\<close>

definition read_temp :: "exn + registry \<Rightarrow> exn + string \<Rightarrow> exn + pyfloat" where
  "read_temp sensors file =
     (case (case sensors of Inl e \<Rightarrow> None | Inr temps \<Rightarrow> select_sensor temps) of
        Some v \<Rightarrow> Inr v
      | None \<Rightarrow>
          (case read_file_temp file of
             Inl e \<Rightarrow> Inr NaN
           | Inr v \<Rightarrow> Inr v))"

section \<open>The sampling ticks\<close>

text \<open>What the operating system answers during one tick: each query returns its value
  or raises.\<close>

record readings =
  cpu_percent :: "exn + pyfloat"
  virtual_memory :: "exn + pyfloat"
  disk_usage :: "exn + pyfloat"
  net_io_counters :: "exn + (int \<times> int)"
  sensors_temperatures :: "exn + registry"
  thermal_zone0 :: "exn + string"

datatype outcome = Done | Raised exn

text \<open>Lines 104 and 222: \<open>(io.bytes_recv - self.prev_recv) / 1024.0\<close>.\<close>

definition net_speed :: "int \<Rightarrow> int \<Rightarrow> pyfloat" where
  "net_speed prev_bytes curr_bytes = fdiv (float_of_int (curr_bytes - prev_bytes)) 1024"

subsection \<open>monitor\_graph.py: \<open>GraphMonitor\<close>\<close>

text \<open>
  The fields of the object, and of its window what the properties below observe: \<open>canvas\<close> is
  the data of the six lines at the last \<open>canvas.draw()\<close>, \<open>temp_stats_label\<close> the three
  numbers of the label, \<open>after_calls\<close> how often \<open>root.after\<close> has registered the next
  tick. The calls into Tk and matplotlib are taken to succeed.
\<close>

record graph_monitor =
  max_points :: int
  cpu_data :: "pyfloat list"
  mem_data :: "pyfloat list"
  disk_data :: "pyfloat list"
  net_down_data :: "pyfloat list"
  net_up_data :: "pyfloat list"
  temp_data :: "pyfloat list"
  prev_recv :: int
  prev_sent :: int
  max_temp :: pyfloat
  min_temp :: pyfloat
  canvas :: "pyfloat list list"
  temp_stats_label :: "(pyfloat \<times> pyfloat \<times> pyfloat) option"
  after_calls :: nat

text \<open>Lines 119 and 120: \<open>if len(lst) > self.max_points: lst.pop(0)\<close>. Each list
  has just been appended to when the loop reaches it, so \<open>pop(0)\<close> finds an element.\<close>

definition trim :: "int \<Rightarrow> 'a list \<Rightarrow> 'a list" where
  "trim mp lst = (if mp < int (length lst) then tl lst else lst)"

text \<open>Lines 113 to 116.\<close>

definition observe :: "pyfloat \<Rightarrow> graph_monitor \<Rightarrow> graph_monitor" where
  "observe temp s =
     (let s1 = (if fgt temp (max_temp s) then s\<lparr>max_temp := temp\<rparr> else s)
      in if flt temp (min_temp s1) then s1\<lparr>min_temp := temp\<rparr> else s1)"

text \<open>Lines 118 to 120: the loop over the six lists.\<close>

definition trim_all :: "graph_monitor \<Rightarrow> graph_monitor" where
  "trim_all s =
     s\<lparr>cpu_data := trim (max_points s) (cpu_data s),
       mem_data := trim (max_points s) (mem_data s),
       disk_data := trim (max_points s) (disk_data s),
       net_down_data := trim (max_points s) (net_down_data s),
       net_up_data := trim (max_points s) (net_up_data s),
       temp_data := trim (max_points s) (temp_data s)\<rparr>"

text \<open>Lines 121 to 148: \<open>max(self.temp_data)\<close> raises on an empty list; then the
  draw, the label and the next tick.\<close>

definition redraw :: "pyfloat \<Rightarrow> graph_monitor \<Rightarrow> outcome \<times> graph_monitor" where
  "redraw temp s =
     (if temp_data s = [] then (Raised ValueError, s)
      else (Done,
            s\<lparr>canvas := [cpu_data s, mem_data s, disk_data s, net_down_data s,
                         net_up_data s, temp_data s],
              temp_stats_label := Some (temp, max_temp s, min_temp s),
              after_calls := after_calls s + 1\<rparr>))"

text \<open>\<open>update_graphs\<close>, lines 96 to 148. An exception leaves the object as it was
  when it was raised.\<close>

definition update_graphs :: "graph_monitor \<Rightarrow> readings \<Rightarrow> outcome \<times> graph_monitor" where
  "update_graphs self env =
     (case cpu_percent env of
        Inl e \<Rightarrow> (Raised e, self)
      | Inr cpu \<Rightarrow>
     (let s1 = self\<lparr>cpu_data := cpu_data self @ [cpu]\<rparr> in
      case virtual_memory env of
        Inl e \<Rightarrow> (Raised e, s1)
      | Inr mem \<Rightarrow>
     (let s2 = s1\<lparr>mem_data := mem_data s1 @ [mem]\<rparr> in
      case disk_usage env of
        Inl e \<Rightarrow> (Raised e, s2)
      | Inr disk \<Rightarrow>
     (let s3 = s2\<lparr>disk_data := disk_data s2 @ [disk]\<rparr> in
      case net_io_counters env of
        Inl e \<Rightarrow> (Raised e, s3)
      | Inr (bytes_recv, bytes_sent) \<Rightarrow>
     (let down_speed = net_speed (prev_recv s3) bytes_recv;
          up_speed = net_speed (prev_sent s3) bytes_sent;
          s4 = s3\<lparr>prev_recv := bytes_recv, prev_sent := bytes_sent,
                  net_down_data := net_down_data s3 @ [down_speed],
                  net_up_data := net_up_data s3 @ [up_speed]\<rparr> in
      case read_temp (sensors_temperatures env) (thermal_zone0 env) of
        Inl e \<Rightarrow> (Raised e, s4)
      | Inr temp \<Rightarrow>
          redraw temp (trim_all (observe temp (s4\<lparr>temp_data := temp_data s4 @ [temp]\<rparr>))))))))"

text \<open>\<open>__init__\<close>, lines 37 to 94: the fields (two separate counter queries, lines 47
  and 48), the empty figure drawn at line 91, then \<open>self.update_graphs()\<close> at line 94.
  An exception leaves the caller without an object.\<close>

definition graph_fields :: "int \<Rightarrow> int \<Rightarrow> int \<Rightarrow> graph_monitor" where
  "graph_fields mp recv sent =
     \<lparr>max_points = mp, cpu_data = [], mem_data = [], disk_data = [], net_down_data = [],
      net_up_data = [], temp_data = [], prev_recv = recv, prev_sent = sent,
      max_temp = NInf, min_temp = PInf, canvas = [[], [], [], [], [], []],
      temp_stats_label = None, after_calls = 0\<rparr>"

definition GraphMonitor_init ::
  "int \<Rightarrow> exn + (int \<times> int) \<Rightarrow> exn + (int \<times> int) \<Rightarrow> readings \<Rightarrow> exn + graph_monitor" where
  "GraphMonitor_init mp io1 io2 env =
     (case io1 of
        Inl e \<Rightarrow> Inl e
      | Inr (recv1, sent1) \<Rightarrow>
          (case io2 of
             Inl e \<Rightarrow> Inl e
           | Inr (recv2, sent2) \<Rightarrow>
               (case update_graphs (graph_fields mp recv1 sent2) env of
                  (Raised e, s) \<Rightarrow> Inl e
                | (Done, s) \<Rightarrow> Inr s)))"

text \<open>The ticks that follow, one per answer of the system; the loop ends with the
  first tick that raises, since that tick registers no next one.\<close>

fun run :: "graph_monitor \<Rightarrow> readings list \<Rightarrow> outcome \<times> graph_monitor" where
  "run s [] = (Done, s)"
| "run s (env # envs) =
     (case update_graphs s env of
        (Raised e, s') \<Rightarrow> (Raised e, s')
      | (Done, s') \<Rightarrow> run s' envs)"

subsection \<open>monitor.py: \<open>FloatingMonitor\<close>\<close>

text \<open>The five labels show one set of values; the temperature label shows \<open>N/A\<close>
  (\<open>None\<close>) for nan.\<close>

record label_values =
  cpu_label :: pyfloat
  mem_label :: pyfloat
  disk_label :: pyfloat
  net_label :: "pyfloat \<times> pyfloat"
  temp_label :: "pyfloat option"

record floating_monitor =
  fm_prev_recv :: int
  fm_prev_sent :: int
  labels :: "label_values option"
  fm_after_calls :: nat

text \<open>\<open>update_stats\<close>, lines 210 to 242.\<close>

definition update_stats :: "floating_monitor \<Rightarrow> readings \<Rightarrow> outcome \<times> floating_monitor" where
  "update_stats self env =
     (case cpu_percent env of
        Inl e \<Rightarrow> (Raised e, self)
      | Inr cpu \<Rightarrow>
     (case virtual_memory env of
        Inl e \<Rightarrow> (Raised e, self)
      | Inr mem \<Rightarrow>
     (case disk_usage env of
        Inl e \<Rightarrow> (Raised e, self)
      | Inr disk \<Rightarrow>
     (case net_io_counters env of
        Inl e \<Rightarrow> (Raised e, self)
      | Inr (bytes_recv, bytes_sent) \<Rightarrow>
     (let down_speed = net_speed (fm_prev_recv self) bytes_recv;
          up_speed = net_speed (fm_prev_sent self) bytes_sent;
          s1 = self\<lparr>fm_prev_recv := bytes_recv, fm_prev_sent := bytes_sent\<rparr> in
      case read_temperature (sensors_temperatures env) (thermal_zone0 env) of
        Inl e \<Rightarrow> (Raised e, s1)
      | Inr temp_c \<Rightarrow>
          (Done,
           s1\<lparr>labels := Some \<lparr>cpu_label = cpu, mem_label = mem, disk_label = disk,
                               net_label = (down_speed, up_speed),
                               temp_label = (if temp_c = NaN then None else Some temp_c)\<rparr>,
              fm_after_calls := fm_after_calls s1 + 1\<rparr>))))))"

text \<open>\<open>__init__\<close>, lines 66 to 110: one counter query for both fields, then
  \<open>self.update_stats()\<close> at line 110.\<close>

definition FloatingMonitor_init :: "exn + (int \<times> int) \<Rightarrow> readings \<Rightarrow> exn + floating_monitor" where
  "FloatingMonitor_init io env =
     (case io of
        Inl e \<Rightarrow> Inl e
      | Inr (recv, sent) \<Rightarrow>
          (case update_stats \<lparr>fm_prev_recv = recv, fm_prev_sent = sent, labels = None,
                              fm_after_calls = 0\<rparr> env of
             (Raised e, s) \<Rightarrow> Inl e
           | (Done, s) \<Rightarrow> Inr s))"

section \<open>Notions used to state the properties\<close>

text \<open>A tick in which the four system queries return; the temperature read by
  \<open>_read_temp\<close> in such a tick; the window that pushing \<open>vs\<close> one by one leaves (append,
  then trim, as \<open>update_graphs\<close> does); the speeds computed from successive counters.\<close>

definition reads_ok :: "readings \<Rightarrow> bool" where
  "reads_ok env = (\<not> isl (cpu_percent env) \<and> \<not> isl (virtual_memory env) \<and>
                   \<not> isl (disk_usage env) \<and> \<not> isl (net_io_counters env))"

definition temp_of :: "readings \<Rightarrow> pyfloat" where
  "temp_of env = projr (read_temp (sensors_temperatures env) (thermal_zone0 env))"


fun speeds :: "int \<Rightarrow> int list \<Rightarrow> pyfloat list" where
  "speeds p [] = []"
| "speeds p (x # xs) = net_speed p x # speeds x xs"

text \<open>Synthetic answers of the system for the concrete scenarios: a CPU load, a
  received-bytes counter and the state of the thermal-zone file; no sensor.\<close>

definition synthetic :: "rat \<Rightarrow> int \<Rightarrow> exn + string \<Rightarrow> readings" where
  "synthetic cpu recv file =
     \<lparr>cpu_percent = Inr (Fin cpu), virtual_memory = Inr (Fin 50), disk_usage = Inr (Fin 25),
      net_io_counters = Inr (recv, 0), sensors_temperatures = Inr [], thermal_zone0 = file\<rparr>"

section \<open>Temperature reading: properties\<close>

lemmas float_parse_defs =
  py_float_def strip_def is_space_def split_sign_def lower_def floatnumber_def
  digitpart_def is_digit_def exponent_def scale_def digits_value_def digit_val_def

lemmas read_temp_defs = read_temp_def select_sensor_def read_file_temp_def float_parse_defs

lemma read_temp_total: "\<exists>v. read_temp sensors file = Inr v"
  by (simp add: read_temp_def split: sum.split option.split)

lemma read_temp_of: "read_temp (sensors_temperatures env) (thermal_zone0 env) = Inr (temp_of env)"
  using read_temp_total [of "sensors_temperatures env" "thermal_zone0 env"]
  by (auto simp: temp_of_def)

lemma read_temp_no_source:
  "(case sensors of Inl e \<Rightarrow> None | Inr temps \<Rightarrow> select_sensor temps) = None \<Longrightarrow>
   read_file_temp file = Inl e \<Longrightarrow> read_temp sensors file = Inr NaN"
  by (simp add: read_temp_def)

text \<open>
  C6. The temperature read never raises, whatever the registry and the thermal-zone file
  are. \<open>GraphMonitor._read_temp\<close> keeps this (\<open>read_temp_total\<close>, \<open>read_temp_no_source\<close>),
  but \<open>read_temperature\<close> of monitor.py guards the file with \<open>except FileNotFoundError\<close>
  only: with no sensor, a file holding non-numeric text makes it raise \<open>ValueError\<close>,
  and an unreadable file \<open>PermissionError\<close>, where \<open>_read_temp\<close> returns nan.
\<close>

theorem read_temperature_raises:
  "read_temperature (Inr []) (Inr ''abc'') = Inl ValueError \<and>
   read_temperature (Inr []) (Inl PermissionError) = Inl PermissionError \<and>
   read_temp (Inr []) (Inr ''abc'') = Inr NaN \<and>
   read_temp (Inr []) (Inl PermissionError) = Inr NaN"
  by (simp add: read_temperature_def read_temp_defs)

text \<open>
  C7. With an empty sensor registry and the thermal-zone file holding \<open>"45000\n"\<close>, both
  temperature functions return 45.0; with an empty registry and no file, both return nan.
\<close>

theorem temperature_fallback_file:
  "read_temperature (Inr []) (Inr ''45000\<newline>'') = Inr (Fin 45) \<and>
   read_temp (Inr []) (Inr ''45000\<newline>'') = Inr (Fin 45) \<and>
   read_temperature (Inr []) (Inl FileNotFoundError) = Inr NaN \<and>
   read_temp (Inr []) (Inl FileNotFoundError) = Inr NaN"
  by (simp add: read_temperature_def read_temp_defs)

text \<open>
  C9, as stated: whenever \<open>'cpu_thermal'\<close> is absent or empty and some sensor has a
  reading, a sensor value is returned. It fails when the first sensor has no reading: with
  the registry \<open>{'a': [], 'b': [50.0]}\<close> both functions go to the file (45.0 from
  \<open>"45000\n"\<close>, nan when it is absent) and never look at \<open>'b'\<close>.
\<close>

theorem first_sensor_only_counterexample:
  "map_of [(''a'', []), (''b'', [\<lparr>label = ''t'', current = Fin 50\<rparr>])] ''cpu_thermal'' = None \<and>
   read_temperature (Inr [(''a'', []), (''b'', [\<lparr>label = ''t'', current = Fin 50\<rparr>])])
      (Inr ''45000\<newline>'') = Inr (Fin 45) \<and>
   read_temp (Inr [(''a'', []), (''b'', [\<lparr>label = ''t'', current = Fin 50\<rparr>])])
      (Inr ''45000\<newline>'') = Inr (Fin 45) \<and>
   read_temperature (Inr [(''a'', []), (''b'', [\<lparr>label = ''t'', current = Fin 50\<rparr>])])
      (Inl FileNotFoundError) = Inr NaN \<and>
   read_temp (Inr [(''a'', []), (''b'', [\<lparr>label = ''t'', current = Fin 50\<rparr>])])
      (Inl FileNotFoundError) = Inr NaN"
  by (simp add: read_temperature_def read_temp_defs)

text \<open>
  C9, amended: in a non-empty registry where \<open>'cpu_thermal'\<close> is absent or has no
  reading, the first sensor in enumeration order decides. When it has a reading, both
  functions return the current value of its first reading; when it has none, they behave
  as with an empty registry (the file, then nan), whatever the later sensors hold.
\<close>

theorem first_sensor_only:
  assumes "map_of ((k, entry) # rest) ''cpu_thermal'' = None \<or>
           map_of ((k, entry) # rest) ''cpu_thermal'' = Some []"
  shows "read_temperature (Inr ((k, entry) # rest)) file =
           (case entry of r # _ \<Rightarrow> Inr (current r) | [] \<Rightarrow> read_temperature (Inr []) file) \<and>
         read_temp (Inr ((k, entry) # rest)) file =
           (case entry of r # _ \<Rightarrow> Inr (current r) | [] \<Rightarrow> read_temp (Inr []) file)"
  using assms
  by (auto simp: read_temperature_def read_temp_def select_sensor_def split: list.split)

theorem first_sensor_only_witness:
  "read_temperature
     (Inr [(''soc'', [\<lparr>label = ''t'', current = Fin 50\<rparr>]), (''cpu_thermal'', [])])
     (Inr ''45000\<newline>'') = Inr (Fin 50) \<and>
   read_temp
     (Inr [(''soc'', [\<lparr>label = ''t'', current = Fin 50\<rparr>]), (''cpu_thermal'', [])])
     (Inr ''45000\<newline>'') = Inr (Fin 50)"
proof -
  have h: "map_of [(''soc'', [\<lparr>label = ''t'', current = Fin 50\<rparr>]), (''cpu_thermal'', [])]
             ''cpu_thermal'' = None \<or>
           map_of [(''soc'', [\<lparr>label = ''t'', current = Fin 50\<rparr>]), (''cpu_thermal'', [])]
             ''cpu_thermal'' = Some []"
    by simp
  from first_sensor_only [OF h, of "Inr ''45000\<newline>''"] show ?thesis
    by simp
qed

section \<open>The tick of \<open>GraphMonitor\<close>: what it does to the object\<close>

lemma observe_fields [simp]:
  "max_points (observe t s) = max_points s"
  "cpu_data (observe t s) = cpu_data s"
  "mem_data (observe t s) = mem_data s"
  "disk_data (observe t s) = disk_data s"
  "net_down_data (observe t s) = net_down_data s"
  "net_up_data (observe t s) = net_up_data s"
  "temp_data (observe t s) = temp_data s"
  "prev_recv (observe t s) = prev_recv s"
  "prev_sent (observe t s) = prev_sent s"
  "canvas (observe t s) = canvas s"
  "temp_stats_label (observe t s) = temp_stats_label s"
  "after_calls (observe t s) = after_calls s"
  by (simp_all add: observe_def Let_def)

lemma observe_max: "max_temp (observe t s) = (if fgt t (max_temp s) then t else max_temp s)"
  by (simp add: observe_def Let_def)

lemma observe_min: "min_temp (observe t s) = (if flt t (min_temp s) then t else min_temp s)"
  by (simp add: observe_def Let_def)




section \<open>The rolling windows\<close>


lemma length_speeds [simp]: "length (speeds p xs) = length xs"
  by (induction xs arbitrary: p) simp_all




lemma temp_of_synthetic:
  "temp_of (synthetic cpu recv (Inl e)) = NaN"
  "temp_of (synthetic cpu recv (Inr ''45000\<newline>'')) = Fin 45"
  "temp_of (synthetic cpu recv (Inr ''51500\<newline>'')) = Fin (103 / 2)"
  by (simp_all add: temp_of_def synthetic_def read_temp_defs)

lemma reads_ok_synthetic [simp]: "reads_ok (synthetic cpu recv file)"
  by (simp add: reads_ok_def synthetic_def)

lemma synthetic_sel [simp]:
  "projr (cpu_percent (synthetic cpu recv file)) = Fin cpu"
  "projr (virtual_memory (synthetic cpu recv file)) = Fin 50"
  "projr (disk_usage (synthetic cpu recv file)) = Fin 25"
  "projr (net_io_counters (synthetic cpu recv file)) = (recv, 0)"
  by (simp_all add: synthetic_def)


lemma synthetic_reads:
  "cpu_percent (synthetic cpu recv file) = Inr (Fin cpu)"
  "virtual_memory (synthetic cpu recv file) = Inr (Fin 50)"
  "disk_usage (synthetic cpu recv file) = Inr (Fin 25)"
  "net_io_counters (synthetic cpu recv file) = Inr (recv, 0)"
  by (simp_all add: synthetic_def)

lemmas tick_defs =
  update_graphs_def Let_def synthetic_def graph_fields_def observe_def trim_all_def trim_def
  redraw_def net_speed_def float_of_int_def flt_def

text \<open>The constructor is the first tick, run on the fresh fields.\<close>

lemma GraphMonitor_init_run:
  "GraphMonitor_init mp (Inr (recv1, sent1)) (Inr (recv2, sent2)) env =
     (case run (graph_fields mp recv1 sent2) [env] of
        (Done, s) \<Rightarrow> Inr s
      | (Raised e, s) \<Rightarrow> Inl e)"
  by (simp add: GraphMonitor_init_def split: prod.split outcome.split)





section \<open>The temperature extrema\<close>

lemma fgt_not_NaN: "fgt a b \<Longrightarrow> a \<noteq> NaN \<and> b \<noteq> NaN"
  by (cases a; cases b; simp)

lemma fge_refl: "a \<noteq> NaN \<Longrightarrow> fge a a"
  by (simp add: fge_def)

lemma fgt_fge: "fgt a b \<Longrightarrow> fge a b"
  by (cases a; cases b; simp add: fge_def)

lemma not_fgt_fge: "a \<noteq> NaN \<Longrightarrow> b \<noteq> NaN \<Longrightarrow> \<not> fgt a b \<Longrightarrow> fge b a"
  by (cases a; cases b; auto simp add: fge_def)

lemma fge_trans: "fge a b \<Longrightarrow> fge b c \<Longrightarrow> fge a c"
  by (cases a; cases b; cases c; auto simp add: fge_def split: if_splits)

lemma fge_not_NaN: "fge a b \<Longrightarrow> a \<noteq> NaN \<and> b \<noteq> NaN"
  by (cases a; cases b; auto simp add: fge_def split: if_splits)

lemma fgt_NaN_right [simp]: "fgt a NaN = False"
  by (cases a) simp_all

lemma observe_NaN: "observe NaN s = s"
  by (simp add: observe_def flt_def)

lemma observe_max_mono: "max_temp s \<noteq> NaN \<Longrightarrow> fge (max_temp (observe t s)) (max_temp s)"
  by (simp add: observe_max fgt_fge fge_refl)

lemma observe_min_mono: "min_temp s \<noteq> NaN \<Longrightarrow> fge (min_temp s) (min_temp (observe t s))"
  by (simp add: observe_min flt_def fgt_fge fge_refl)

lemma observe_not_NaN:
  "max_temp s \<noteq> NaN \<Longrightarrow> max_temp (observe t s) \<noteq> NaN"
  "min_temp s \<noteq> NaN \<Longrightarrow> min_temp (observe t s) \<noteq> NaN"
  using fgt_not_NaN by (auto simp: observe_max observe_min flt_def)

lemma observe_valid:
  assumes "t \<noteq> NaN" "max_temp s \<noteq> NaN" "min_temp s \<noteq> NaN"
  shows "fge (max_temp (observe t s)) (min_temp (observe t s))"
proof -
  have "fge (max_temp (observe t s)) t"
    using assms by (simp add: observe_max fge_refl not_fgt_fge)
  moreover have "fge t (min_temp (observe t s))"
    using assms by (simp add: observe_min flt_def fge_refl not_fgt_fge)
  ultimately show ?thesis by (rule fge_trans)
qed

lemma observe_keeps_order:
  assumes "fge (max_temp s) (min_temp s)"
  shows "fge (max_temp (observe t s)) (min_temp (observe t s))"
proof -
  from assms have n: "max_temp s \<noteq> NaN" "min_temp s \<noteq> NaN" using fge_not_NaN by blast+
  from fge_trans [OF observe_max_mono [OF n(1)] assms] have "fge (max_temp (observe t s)) (min_temp s)" .
  from fge_trans [OF this observe_min_mono [OF n(2)]] show ?thesis .
qed

text \<open>Whatever its outcome, a tick leaves the extrema alone or observes the temperature.\<close>

lemma redraw_extrema:
  "redraw t s = (out, s') \<Longrightarrow> max_temp s' = max_temp s \<and> min_temp s' = min_temp s"
  by (auto simp: redraw_def split: if_splits)

lemma trim_all_extrema [simp]:
  "max_temp (trim_all s) = max_temp s" "min_temp (trim_all s) = min_temp s"
  by (simp_all add: trim_all_def)

lemma update_graphs_extrema:
  assumes "update_graphs s env = (out, s')"
  shows "(out \<noteq> Done \<and> max_temp s' = max_temp s \<and> min_temp s' = min_temp s) \<or>
         (max_temp s' = max_temp (observe (temp_of env) s) \<and>
          min_temp s' = min_temp (observe (temp_of env) s))"
  using assms read_temp_of [of env]
  by (auto simp: update_graphs_def Let_def observe_max observe_min
           split: sum.splits prod.splits dest!: redraw_extrema)

lemma run_extrema:
  assumes "run s0 envs = (Done, s)" "max_temp s0 \<noteq> NaN" "min_temp s0 \<noteq> NaN"
  shows "max_temp s \<noteq> NaN \<and> min_temp s \<noteq> NaN \<and>
         ((fge (max_temp s0) (min_temp s0) \<or> (\<exists>e\<in>set envs. temp_of e \<noteq> NaN)) \<longrightarrow>
            fge (max_temp s) (min_temp s))"
  using assms
proof (induction envs arbitrary: s0)
  case Nil
  then show ?case by simp
next
  case (Cons env envs)
  from Cons.prems(1) obtain s1 where
    s1: "update_graphs s0 env = (Done, s1)" and r: "run s1 envs = (Done, s)"
    by (auto split: prod.splits outcome.splits)
  from update_graphs_extrema [OF s1] have
    e: "max_temp s1 = max_temp (observe (temp_of env) s0)"
       "min_temp s1 = min_temp (observe (temp_of env) s0)"
    by simp_all
  have n: "max_temp s1 \<noteq> NaN" "min_temp s1 \<noteq> NaN"
    using e Cons.prems(2,3) observe_not_NaN by simp_all
  have o: "fge (max_temp s0) (min_temp s0) \<or> temp_of env \<noteq> NaN \<Longrightarrow> fge (max_temp s1) (min_temp s1)"
    using e Cons.prems(2,3) observe_valid observe_keeps_order by auto
  from Cons.IH [OF r n] o show ?case by auto
qed

text \<open>
  C4. Along the ticks of a \<open>GraphMonitor\<close>, whatever the next tick reads and however it
  ends: a nan temperature leaves \<open>max_temp\<close> and \<open>min_temp\<close> unchanged; \<open>max_temp\<close> never
  decreases and \<open>min_temp\<close> never increases; and once one of the completed ticks has read a
  temperature that is not nan, \<open>max_temp \<ge> min_temp\<close> holds before and after every later
  tick.
\<close>

theorem extrema_monotone:
  assumes "run (graph_fields c r0 s0) envs = (Done, s)" and "update_graphs s env = (out, s')"
  shows "(temp_of env = NaN \<longrightarrow> max_temp s' = max_temp s \<and> min_temp s' = min_temp s) \<and>
         fge (max_temp s') (max_temp s) \<and> fge (min_temp s) (min_temp s') \<and>
         ((\<exists>e\<in>set envs. temp_of e \<noteq> NaN) \<longrightarrow>
            fge (max_temp s) (min_temp s) \<and> fge (max_temp s') (min_temp s'))"
proof -
  have i: "max_temp (graph_fields c r0 s0) \<noteq> NaN" "min_temp (graph_fields c r0 s0) \<noteq> NaN"
    by (simp_all add: graph_fields_def)
  from run_extrema [OF assms(1) i] have
    n: "max_temp s \<noteq> NaN" "min_temp s \<noteq> NaN" and
    v: "(\<exists>e\<in>set envs. temp_of e \<noteq> NaN) \<Longrightarrow> fge (max_temp s) (min_temp s)"
    by auto
  from update_graphs_extrema [OF assms(2)] have
    c: "(max_temp s' = max_temp s \<and> min_temp s' = min_temp s) \<or>
        (max_temp s' = max_temp (observe (temp_of env) s) \<and>
         min_temp s' = min_temp (observe (temp_of env) s))"
    by blast
  have 1: "temp_of env = NaN \<longrightarrow> max_temp s' = max_temp s \<and> min_temp s' = min_temp s"
    using c by (auto simp: observe_NaN)
  have 2: "fge (max_temp s') (max_temp s)"
    using c n observe_max_mono [OF n(1)] by (auto simp: fge_refl)
  have 3: "fge (min_temp s) (min_temp s')"
    using c n observe_min_mono [OF n(2)] by (auto simp: fge_refl)
  have 4: "fge (max_temp s) (min_temp s) \<Longrightarrow> fge (max_temp s') (min_temp s')"
    using c observe_keeps_order by auto
  from 1 2 3 4 v show ?thesis by blast
qed

theorem extrema_monotone_witness:
  "\<exists>s out s'.
     run (graph_fields 3 0 0) [synthetic 10 1024 (Inr ''45000\<newline>'')] = (Done, s) \<and>
     update_graphs s (synthetic 20 3072 (Inl FileNotFoundError)) = (out, s') \<and>
     temp_of (synthetic 20 3072 (Inl FileNotFoundError)) = NaN \<and>
     max_temp s = Fin 45 \<and> min_temp s = Fin 45 \<and>
     max_temp s' = max_temp s \<and> min_temp s' = min_temp s \<and>
     fge (max_temp s') (max_temp s) \<and> fge (min_temp s) (min_temp s') \<and>
     fge (max_temp s) (min_temp s) \<and> fge (max_temp s') (min_temp s')"
proof -
  obtain s where s: "run (graph_fields 3 0 0) [synthetic 10 1024 (Inr ''45000\<newline>'')] = (Done, s)"
    and m: "max_temp s = Fin 45" "min_temp s = Fin 45"
    by (simp add: tick_defs read_temp_defs)
  obtain out s' where s': "update_graphs s (synthetic 20 3072 (Inl FileNotFoundError)) = (out, s')"
    by (cases "update_graphs s (synthetic 20 3072 (Inl FileNotFoundError))")
  have v: "\<exists>e\<in>set [synthetic 10 1024 (Inr ''45000\<newline>'')]. temp_of e \<noteq> NaN"
    by (simp add: temp_of_synthetic)
  from extrema_monotone [OF s s'] v m s s' show ?thesis
    by (simp del: run.simps add: temp_of_synthetic)
qed

section \<open>Network speeds\<close>

lemma net_speed_eq: "net_speed p c = Fin (of_int (c - p) / 1024)"
  by (simp add: net_speed_def float_of_int_def)










section \<open>Failing reads and start\<close>

text \<open>
  C5, as stated: a tick whose memory read raises still publishes a sample and the loop goes
  on. In the tick after \<open>__init__\<close>, with the memory read raising \<open>OSError\<close>,
  \<open>update_graphs\<close> raises: the CPU value is already appended, the memory window is not
  touched (no repeated value), disk, network and temperature are not read, nothing is
  drawn and \<open>root.after\<close> is not called; \<open>update_stats\<close> raises with the object unchanged.
\<close>

theorem memory_failure_counterexample:
  "GraphMonitor_init 3 (Inr (0, 0)) (Inr (0, 0)) (synthetic 10 1024 (Inr ''45000\<newline>'')) =
     Inr \<lparr>max_points = 3, cpu_data = [Fin 10], mem_data = [Fin 50], disk_data = [Fin 25],
          net_down_data = [Fin 1], net_up_data = [Fin 0], temp_data = [Fin 45],
          prev_recv = 1024, prev_sent = 0, max_temp = Fin 45, min_temp = Fin 45,
          canvas = [[Fin 10], [Fin 50], [Fin 25], [Fin 1], [Fin 0], [Fin 45]],
          temp_stats_label = Some (Fin 45, Fin 45, Fin 45), after_calls = 1\<rparr> \<and>
   update_graphs
     \<lparr>max_points = 3, cpu_data = [Fin 10], mem_data = [Fin 50], disk_data = [Fin 25],
      net_down_data = [Fin 1], net_up_data = [Fin 0], temp_data = [Fin 45],
      prev_recv = 1024, prev_sent = 0, max_temp = Fin 45, min_temp = Fin 45,
      canvas = [[Fin 10], [Fin 50], [Fin 25], [Fin 1], [Fin 0], [Fin 45]],
      temp_stats_label = Some (Fin 45, Fin 45, Fin 45), after_calls = 1\<rparr>
     ((synthetic 20 3072 (Inr ''45000\<newline>''))\<lparr>virtual_memory := Inl OSError\<rparr>) =
     (Raised OSError,
      \<lparr>max_points = 3, cpu_data = [Fin 10, Fin 20], mem_data = [Fin 50], disk_data = [Fin 25],
       net_down_data = [Fin 1], net_up_data = [Fin 0], temp_data = [Fin 45],
       prev_recv = 1024, prev_sent = 0, max_temp = Fin 45, min_temp = Fin 45,
       canvas = [[Fin 10], [Fin 50], [Fin 25], [Fin 1], [Fin 0], [Fin 45]],
       temp_stats_label = Some (Fin 45, Fin 45, Fin 45), after_calls = 1\<rparr>) \<and>
   update_stats \<lparr>fm_prev_recv = 1024, fm_prev_sent = 0,
        labels = Some \<lparr>cpu_label = Fin 10, mem_label = Fin 50, disk_label = Fin 25,
                         net_label = (Fin 1, Fin 0), temp_label = Some (Fin 45)\<rparr>,
        fm_after_calls = 1\<rparr>
     ((synthetic 20 3072 (Inr ''45000\<newline>''))\<lparr>virtual_memory := Inl OSError\<rparr>) =
     (Raised OSError,
      \<lparr>fm_prev_recv = 1024, fm_prev_sent = 0,
        labels = Some \<lparr>cpu_label = Fin 10, mem_label = Fin 50, disk_label = Fin 25,
                         net_label = (Fin 1, Fin 0), temp_label = Some (Fin 45)\<rparr>,
        fm_after_calls = 1\<rparr>)"
  by (simp add: GraphMonitor_init_def update_stats_def tick_defs read_temp_defs)

text \<open>
  C5, amended: when a metric read of a tick raises (the CPU, memory, disk or counter
  query), the exception ends the tick there and leaves it: nothing is drawn, the label
  keeps the previous sample, \<open>root.after\<close> is not called and no later tick runs;
  \<open>update_stats\<close> leaves the object unchanged. When it is the memory read,
  \<open>update_graphs\<close> leaves the object as it was except for the CPU value already
  appended: the memory window gets no value, and disk, network and temperature are not
  read.
\<close>

theorem failed_read_aborts_tick:
  assumes "\<not> reads_ok env"
  shows "(\<exists>e. fst (update_graphs s env) = Raised e) \<and>
         canvas (snd (update_graphs s env)) = canvas s \<and>
         temp_stats_label (snd (update_graphs s env)) = temp_stats_label s \<and>
         after_calls (snd (update_graphs s env)) = after_calls s \<and>
         run s (env # envs) = update_graphs s env \<and>
         (\<exists>e. update_stats st env = (Raised e, st)) \<and>
         (\<forall>e. virtual_memory env = Inl e \<longrightarrow>
            update_graphs s env =
              (case cpu_percent env of
                 Inl e' \<Rightarrow> (Raised e', s)
               | Inr cpu \<Rightarrow> (Raised e, s\<lparr>cpu_data := cpu_data s @ [cpu]\<rparr>)))"
proof -
  from assms consider
      (cpu) e where "cpu_percent env = Inl e"
    | (mem) c e where "cpu_percent env = Inr c" "virtual_memory env = Inl e"
    | (disk) c m e where "cpu_percent env = Inr c" "virtual_memory env = Inr m"
        "disk_usage env = Inl e"
    | (net) c m d e where "cpu_percent env = Inr c" "virtual_memory env = Inr m"
        "disk_usage env = Inr d" "net_io_counters env = Inl e"
    by (cases "cpu_percent env"; cases "virtual_memory env"; cases "disk_usage env";
        cases "net_io_counters env") (auto simp: reads_ok_def)
  then show ?thesis
  proof cases
    case cpu
    then show ?thesis by (simp add: update_graphs_def update_stats_def)
  next
    case mem
    then show ?thesis by (simp add: update_graphs_def update_stats_def Let_def)
  next
    case disk
    then show ?thesis by (simp add: update_graphs_def update_stats_def Let_def)
  next
    case net
    then show ?thesis by (simp add: update_graphs_def update_stats_def Let_def)
  qed
qed

theorem failed_read_aborts_tick_witness:
  "update_graphs (graph_fields 3 0 0)
      ((synthetic 20 3072 (Inr ''45000\<newline>''))\<lparr>virtual_memory := Inl OSError\<rparr>) =
     (Raised OSError, (graph_fields 3 0 0)\<lparr>cpu_data := [Fin 20]\<rparr>) \<and>
   after_calls (snd (update_graphs (graph_fields 3 0 0)
      ((synthetic 20 3072 (Inr ''45000\<newline>''))\<lparr>virtual_memory := Inl OSError\<rparr>))) = 0 \<and>
   run (graph_fields 3 0 0)
      [(synthetic 20 3072 (Inr ''45000\<newline>''))\<lparr>virtual_memory := Inl OSError\<rparr>,
       synthetic 30 3072 (Inr ''45000\<newline>'')] =
     (Raised OSError, (graph_fields 3 0 0)\<lparr>cpu_data := [Fin 20]\<rparr>) \<and>
   (\<exists>e. update_stats \<lparr>fm_prev_recv = 1024, fm_prev_sent = 0,
        labels = Some \<lparr>cpu_label = Fin 10, mem_label = Fin 50, disk_label = Fin 25,
                         net_label = (Fin 1, Fin 0), temp_label = Some (Fin 45)\<rparr>,
        fm_after_calls = 1\<rparr>
      ((synthetic 20 3072 (Inr ''45000\<newline>''))\<lparr>virtual_memory := Inl OSError\<rparr>) =
     (Raised e, \<lparr>fm_prev_recv = 1024, fm_prev_sent = 0,
        labels = Some \<lparr>cpu_label = Fin 10, mem_label = Fin 50, disk_label = Fin 25,
                         net_label = (Fin 1, Fin 0), temp_label = Some (Fin 45)\<rparr>,
        fm_after_calls = 1\<rparr>))"
proof -
  have h: "\<not> reads_ok ((synthetic 20 3072 (Inr ''45000\<newline>''))\<lparr>virtual_memory := Inl OSError\<rparr>)"
    by (simp add: reads_ok_def)
  have m: "virtual_memory ((synthetic 20 3072 (Inr ''45000\<newline>''))\<lparr>virtual_memory := Inl OSError\<rparr>)
             = Inl OSError"
    by simp
  from failed_read_aborts_tick [OF h, of "graph_fields 3 0 0"
      "[synthetic 30 3072 (Inr ''45000\<newline>'')]"
      "\<lparr>fm_prev_recv = 1024, fm_prev_sent = 0,
        labels = Some \<lparr>cpu_label = Fin 10, mem_label = Fin 50, disk_label = Fin 25,
                         net_label = (Fin 1, Fin 0), temp_label = Some (Fin 45)\<rparr>,
        fm_after_calls = 1\<rparr>"] m
  show ?thesis by (simp add: synthetic_def graph_fields_def)
qed

text \<open>
  C8, as stated: start takes the baseline and publishes no sample. Both constructors end
  with a call of the tick: when \<open>__init__\<close> returns, the first sample is on the canvas
  (in the labels) and the next tick is registered.
\<close>

theorem start_publishes_counterexample:
  "GraphMonitor_init 3 (Inr (0, 0)) (Inr (0, 0)) (synthetic 10 1024 (Inr ''45000\<newline>'')) =
     Inr \<lparr>max_points = 3, cpu_data = [Fin 10], mem_data = [Fin 50], disk_data = [Fin 25],
          net_down_data = [Fin 1], net_up_data = [Fin 0], temp_data = [Fin 45],
          prev_recv = 1024, prev_sent = 0, max_temp = Fin 45, min_temp = Fin 45,
          canvas = [[Fin 10], [Fin 50], [Fin 25], [Fin 1], [Fin 0], [Fin 45]],
          temp_stats_label = Some (Fin 45, Fin 45, Fin 45), after_calls = 1\<rparr> \<and>
   FloatingMonitor_init (Inr (0, 0)) (synthetic 10 1024 (Inr ''45000\<newline>'')) =
     Inr \<lparr>fm_prev_recv = 1024, fm_prev_sent = 0,
          labels = Some \<lparr>cpu_label = Fin 10, mem_label = Fin 50, disk_label = Fin 25,
                           net_label = (Fin 1, Fin 0), temp_label = Some (Fin 45)\<rparr>,
          fm_after_calls = 1\<rparr>"
  by (simp add: GraphMonitor_init_def FloatingMonitor_init_def update_stats_def
        read_temperature_def tick_defs read_temp_defs)

text \<open>
  C8, amended: start takes the counter baseline and then runs the first tick itself.
  Whenever a constructor returns, every query of that tick has returned, the first sample
  is published, its network speeds are the deltas between the baseline and the counters
  read by that tick, which become the new baseline, and exactly one next tick is
  registered.
\<close>

theorem start_runs_first_tick:
  "(GraphMonitor_init mp io1 io2 env = Inr s \<longrightarrow>
      (\<exists>recv1 sent1 recv2 sent2 cpu mem disk recv sent temp.
         io1 = Inr (recv1, sent1) \<and> io2 = Inr (recv2, sent2) \<and>
         cpu_percent env = Inr cpu \<and> virtual_memory env = Inr mem \<and> disk_usage env = Inr disk \<and>
         net_io_counters env = Inr (recv, sent) \<and> temp_of env = temp \<and>
         cpu_data s = [cpu] \<and> mem_data s = [mem] \<and> disk_data s = [disk] \<and>
         net_down_data s = [net_speed recv1 recv] \<and> net_up_data s = [net_speed sent2 sent] \<and>
         temp_data s = [temp] \<and> prev_recv s = recv \<and> prev_sent s = sent \<and>
         canvas s = [[cpu], [mem], [disk], [net_speed recv1 recv], [net_speed sent2 sent], [temp]] \<and>
         temp_stats_label s = Some (temp, max_temp s, min_temp s) \<and> after_calls s = 1)) \<and>
   (FloatingMonitor_init io env = Inr st \<longrightarrow>
      (\<exists>recv0 sent0 cpu mem disk recv sent l.
         io = Inr (recv0, sent0) \<and>
         cpu_percent env = Inr cpu \<and> virtual_memory env = Inr mem \<and> disk_usage env = Inr disk \<and>
         net_io_counters env = Inr (recv, sent) \<and>
         labels st = Some l \<and> cpu_label l = cpu \<and> mem_label l = mem \<and> disk_label l = disk \<and>
         net_label l = (net_speed recv0 recv, net_speed sent0 sent) \<and>
         fm_prev_recv st = recv \<and> fm_prev_sent st = sent \<and> fm_after_calls st = 1))"
proof (intro conjI impI)
  assume a: "GraphMonitor_init mp io1 io2 env = Inr s"
  then obtain recv1 sent1 recv2 sent2 where
    io: "io1 = Inr (recv1, sent1)" "io2 = Inr (recv2, sent2)" and
    u: "update_graphs (graph_fields mp recv1 sent2) env = (Done, s)"
    by (auto simp: GraphMonitor_init_def split: sum.splits prod.splits outcome.splits)
  from u read_temp_of [of env] io show
    "\<exists>recv1 sent1 recv2 sent2 cpu mem disk recv sent temp.
         io1 = Inr (recv1, sent1) \<and> io2 = Inr (recv2, sent2) \<and>
         cpu_percent env = Inr cpu \<and> virtual_memory env = Inr mem \<and> disk_usage env = Inr disk \<and>
         net_io_counters env = Inr (recv, sent) \<and> temp_of env = temp \<and>
         cpu_data s = [cpu] \<and> mem_data s = [mem] \<and> disk_data s = [disk] \<and>
         net_down_data s = [net_speed recv1 recv] \<and> net_up_data s = [net_speed sent2 sent] \<and>
         temp_data s = [temp] \<and> prev_recv s = recv \<and> prev_sent s = sent \<and>
         canvas s = [[cpu], [mem], [disk], [net_speed recv1 recv], [net_speed sent2 sent], [temp]] \<and>
         temp_stats_label s = Some (temp, max_temp s, min_temp s) \<and> after_calls s = 1"
    by (auto simp: update_graphs_def Let_def graph_fields_def trim_all_def redraw_def trim_def
          observe_max observe_min
          split: sum.splits prod.splits if_splits)
next
  assume a: "FloatingMonitor_init io env = Inr st"
  then show
    "\<exists>recv0 sent0 cpu mem disk recv sent l.
         io = Inr (recv0, sent0) \<and>
         cpu_percent env = Inr cpu \<and> virtual_memory env = Inr mem \<and> disk_usage env = Inr disk \<and>
         net_io_counters env = Inr (recv, sent) \<and>
         labels st = Some l \<and> cpu_label l = cpu \<and> mem_label l = mem \<and> disk_label l = disk \<and>
         net_label l = (net_speed recv0 recv, net_speed sent0 sent) \<and>
         fm_prev_recv st = recv \<and> fm_prev_sent st = sent \<and> fm_after_calls st = 1"
    by (auto simp: FloatingMonitor_init_def update_stats_def Let_def
          split: sum.splits prod.splits outcome.splits)
qed

theorem start_runs_first_tick_witness:
  "\<exists>s st.
     GraphMonitor_init 3 (Inr (0, 0)) (Inr (0, 0)) (synthetic 10 1024 (Inr ''45000\<newline>'')) = Inr s \<and>
     FloatingMonitor_init (Inr (0, 0)) (synthetic 10 1024 (Inr ''45000\<newline>'')) = Inr st \<and>
     cpu_data s = [Fin 10] \<and> net_down_data s = [Fin 1] \<and> prev_recv s = 1024 \<and>
     canvas s = [[Fin 10], [Fin 50], [Fin 25], [Fin 1], [Fin 0], [Fin 45]] \<and>
     temp_stats_label s = Some (Fin 45, max_temp s, min_temp s) \<and> after_calls s = 1 \<and>
     (\<exists>l. labels st = Some l \<and> cpu_label l = Fin 10 \<and> net_label l = (Fin 1, Fin 0)) \<and>
     fm_prev_recv st = 1024 \<and> fm_after_calls st = 1"
proof -
  obtain s where s: "GraphMonitor_init 3 (Inr (0, 0)) (Inr (0, 0))
      (synthetic 10 1024 (Inr ''45000\<newline>'')) = Inr s"
    by (simp add: GraphMonitor_init_def tick_defs read_temp_defs)
  obtain st where st: "FloatingMonitor_init (Inr (0, 0))
      (synthetic 10 1024 (Inr ''45000\<newline>'')) = Inr st"
    by (simp add: FloatingMonitor_init_def update_stats_def read_temperature_def tick_defs
          read_temp_defs)
  from start_runs_first_tick [of 3 "Inr (0, 0)" "Inr (0, 0)"
      "synthetic 10 1024 (Inr ''45000\<newline>'')" s "Inr (0, 0)" st] s st
  show ?thesis
    by (auto simp: synthetic_reads temp_of_synthetic net_speed_eq)
qed

end
